theory Spec2Isabelle
  imports Main "HOL-Library.AList"
begin

section \<open>Python built-ins used by \<^verbatim>\<open>backend/search_tools.py\<close>\<close>

text \<open>
  Strings are \<^typ>\<open>string\<close>, Python's unbounded integers are \<^typ>\<open>int\<close>, and an
  \<^verbatim>\<open>Optional[...]\<close> value or a dictionary key that may be missing is an \<^typ>\<open>'a option\<close>:
  \<^term>\<open>None\<close> is Python's \<^verbatim>\<open>None\<close> for an optional value, and a missing key for a
  dictionary. A key that is there holds a value of its type, never \<^verbatim>\<open>None\<close>; so
  \<^verbatim>\<open>d.get(k)\<close> is the field itself, and \<^verbatim>\<open>d.get(k, default)\<close> is the default exactly for a
  missing key.
\<close>

text \<open>\<^verbatim>\<open>str(n)\<close> for an integer, as an f-string field \<^verbatim>\<open>{n}\<close> renders it.\<close>

definition digit_char :: "nat \<Rightarrow> char" where
  "digit_char d = ''0123456789'' ! d"

function nat_str :: "nat \<Rightarrow> string" where
  "nat_str n =
     (if n < 10 then [digit_char n] else nat_str (n div 10) @ [digit_char (n mod 10)])"
  by pat_completeness auto
termination
  by (relation "measure id") auto

declare nat_str.simps [simp del]

definition py_str_int :: "int \<Rightarrow> string" where
  "py_str_int i = (if i < 0 then CHR ''-'' # nat_str (nat (- i)) else nat_str (nat i))"

text \<open>\<^verbatim>\<open>sep.join(parts)\<close>.\<close>

fun py_join :: "string \<Rightarrow> string list \<Rightarrow> string" where
  "py_join sep [] = []"
| "py_join sep [x] = x"
| "py_join sep (x # y # ys) = x @ sep @ py_join sep (y # ys)"

text \<open>
  Truth value testing. \<^verbatim>\<open>if x:\<close> on an optional string holds when \<^verbatim>\<open>x\<close> is a
  non-empty string; on an optional integer, when it is a non-zero integer.
\<close>

definition truthy_str :: "string option \<Rightarrow> bool" where
  "truthy_str x = (case x of None \<Rightarrow> False | Some s \<Rightarrow> s \<noteq> [])"

definition truthy_int :: "int option \<Rightarrow> bool" where
  "truthy_int x = (case x of None \<Rightarrow> False | Some n \<Rightarrow> n \<noteq> 0)"

text \<open>The apostrophe that the messages put around names.\<close>

definition apos :: char where
  "apos = CHR 0x27"

section \<open>Data model\<close>

text \<open>
  The metadata dictionary of a retrieved chunk. \<^verbatim>\<open>_format_results\<close> reads the keys
  \<^verbatim>\<open>course_title\<close> and \<^verbatim>\<open>lesson_number\<close> with \<^verbatim>\<open>dict.get\<close>; either may be missing.
  Their values have the types of a content chunk: the title is text, the lesson number an
  integer.
\<close>

record chunk_meta =
  meta_course_title :: "string option"
  meta_lesson_number :: "int option"

text \<open>
  Modelled from the spec: \<^verbatim>\<open>SearchResults\<close> is declared in \<^verbatim>\<open>vector_store.py\<close>. It holds
  the parallel sequences \<^verbatim>\<open>documents\<close>, \<^verbatim>\<open>metadata\<close> and \<^verbatim>\<open>distances\<close> and an optional
  \<^verbatim>\<open>error\<close> text. The tools never read the distances, so the record leaves them out.
\<close>

record search_results =
  documents :: "string list"
  metadata :: "chunk_meta list"
  error :: "string option"

text \<open>
  Modelled from the spec: \<^verbatim>\<open>SearchResults.is_empty\<close> holds exactly when \<^verbatim>\<open>documents\<close> is
  the empty list, whatever \<^verbatim>\<open>error\<close> is. The tests of the store use it so: a result
  without documents is empty with or without an error, one with a document is not.
\<close>

definition is_empty :: "search_results \<Rightarrow> bool" where
  "is_empty results = (documents results = [])"

text \<open>A provenance record, the dictionary \<^verbatim>\<open>{"text": ..., "url": ...}\<close>.\<close>

record source =
  src_text :: string
  src_url :: "string option"

text \<open>
  A lesson and a course as \<^verbatim>\<open>get_all_courses_metadata\<close> returns them. Every key is read
  with \<^verbatim>\<open>dict.get\<close>, so every key may be missing.
\<close>

record lesson_meta =
  lm_lesson_number :: "int option"
  lm_lesson_title :: "string option"
  lm_lesson_link :: "string option"

record course_meta =
  cm_title :: "string option"
  cm_course_link :: "string option"
  cm_instructor :: "string option"
  cm_lessons :: "lesson_meta list option"

text \<open>
  The vector store is an external collaborator (\<^verbatim>\<open>vector_store.py\<close>); the tools call four of
  its methods. They are parameters here: any functions of these types.
\<close>

record vector_store =
  search :: "string \<Rightarrow> string option \<Rightarrow> int option \<Rightarrow> search_results"
  get_lesson_link :: "string \<Rightarrow> int \<Rightarrow> string option"
  resolve_course_name :: "string \<Rightarrow> string option"
  get_all_courses_metadata :: "course_meta list"

section \<open>\<^verbatim>\<open>CourseSearchTool\<close>\<close>

record course_search_tool =
  store :: vector_store
  last_sources :: "source list"

text \<open>
  What one call of \<^verbatim>\<open>execute\<close> does: the text it returns, the tool afterwards, and the
  calls of \<^verbatim>\<open>store.get_lesson_link\<close> it made, in order, with their arguments.
\<close>

record search_outcome =
  returned :: string
  tool_after :: course_search_tool
  link_calls :: "(string \<times> int) list"

text \<open>
  The loop of \<^verbatim>\<open>_format_results\<close> over \<^verbatim>\<open>zip(results.documents, results.metadata)\<close>, with
  the lists \<^verbatim>\<open>formatted\<close> and \<^verbatim>\<open>sources\<close> it appends to and the log of link look-ups.
\<close>

fun format_results_loop ::
  "vector_store \<Rightarrow> (string \<times> chunk_meta) list \<Rightarrow> string list \<Rightarrow> source list \<Rightarrow>
   (string \<times> int) list \<Rightarrow> string list \<times> source list \<times> (string \<times> int) list" where
  "format_results_loop st [] formatted sources calls = (formatted, sources, calls)"
| "format_results_loop st ((doc, meta) # rest) formatted sources calls =
     (let course_title = (case meta_course_title meta of None \<Rightarrow> ''unknown''
                          | Some t \<Rightarrow> t);
          lesson_num = meta_lesson_number meta;
          header = ''['' @ course_title;
          header = (case lesson_num of None \<Rightarrow> header
                    | Some n \<Rightarrow> header @ '' - Lesson '' @ py_str_int n);
          header = header @ '']'';
          source_text = course_title;
          source_text = (case lesson_num of None \<Rightarrow> source_text
                         | Some n \<Rightarrow> source_text @ '' - Lesson '' @ py_str_int n);
          lesson_url = (case lesson_num of None \<Rightarrow> None
                        | Some n \<Rightarrow> get_lesson_link st course_title n);
          calls = (case lesson_num of None \<Rightarrow> calls | Some n \<Rightarrow> calls @ [(course_title, n)]);
          source_data = \<lparr>src_text = source_text, src_url = lesson_url\<rparr>
      in format_results_loop st rest (formatted @ [header @ ''\<newline>'' @ doc])
           (sources @ [source_data]) calls)"

definition format_results :: "course_search_tool \<Rightarrow> search_results \<Rightarrow> search_outcome" where
  "format_results tool results =
     (case format_results_loop (store tool) (zip (documents results) (metadata results)) [] [] []
      of (formatted, sources, calls) \<Rightarrow>
        \<lparr>returned = py_join ''\<newline>\<newline>'' formatted,
         tool_after = tool\<lparr>last_sources := sources\<rparr>,
         link_calls = calls\<rparr>)"

text \<open>The message of the empty result, lines 78 to 83 of the source.\<close>

definition no_content_message :: "string option \<Rightarrow> int option \<Rightarrow> string" where
  "no_content_message course_name lesson_number =
     (let filter_info = [];
          filter_info = (if truthy_str course_name
                         then filter_info @ '' in course '' @ [apos] @ the course_name @ [apos]
                         else filter_info);
          filter_info = (if truthy_int lesson_number
                         then filter_info @ '' in lesson '' @ py_str_int (the lesson_number)
                         else filter_info)
      in ''No relevant content found'' @ filter_info @ ''.'')"

definition CourseSearchTool_execute ::
  "course_search_tool \<Rightarrow> string \<Rightarrow> string option \<Rightarrow> int option \<Rightarrow> search_outcome" where
  "CourseSearchTool_execute tool query course_name lesson_number =
     (let results = search (store tool) query course_name lesson_number
      in if truthy_str (error results)
         then \<lparr>returned = the (error results), tool_after = tool, link_calls = []\<rparr>
         else if is_empty results
         then \<lparr>returned = no_content_message course_name lesson_number,
               tool_after = tool, link_calls = []\<rparr>
         else format_results tool results)"

section \<open>\<^verbatim>\<open>CourseOutlineTool\<close>\<close>

text \<open>
  An f-string field holding the result of \<^verbatim>\<open>lesson.get('lesson_number')\<close>: the decimal
  numeral, or \<^verbatim>\<open>None\<close> when the key is missing.
\<close>

definition py_str_opt_int :: "int option \<Rightarrow> string" where
  "py_str_opt_int x = (case x of None \<Rightarrow> ''None'' | Some n \<Rightarrow> py_str_int n)"

text \<open>The loop over \<^verbatim>\<open>lessons\<close>, appending one entry each to \<^verbatim>\<open>outline_parts\<close>.\<close>

fun lesson_entries_loop :: "lesson_meta list \<Rightarrow> string list \<Rightarrow> string list" where
  "lesson_entries_loop [] outline_parts = outline_parts"
| "lesson_entries_loop (lesson # rest) outline_parts =
     (let lesson_number = lm_lesson_number lesson;
          lesson_title = (case lm_lesson_title lesson of None \<Rightarrow> ''Untitled Lesson''
                          | Some t \<Rightarrow> t);
          lesson_link = lm_lesson_link lesson;
          lesson_entry = ''Lesson '' @ py_str_opt_int lesson_number @ '': '' @ lesson_title;
          lesson_entry = (if truthy_str lesson_link
                          then lesson_entry @ '' - '' @ the lesson_link
                          else lesson_entry)
      in lesson_entries_loop rest (outline_parts @ [lesson_entry]))"

definition format_course_outline :: "course_meta \<Rightarrow> string" where
  "format_course_outline course_meta =
     (let outline_parts = [];
          course_title = (case cm_title course_meta of None \<Rightarrow> ''Unknown Course''
                          | Some t \<Rightarrow> t);
          outline_parts = outline_parts @ [''**Course:** '' @ course_title];
          course_link = cm_course_link course_meta;
          outline_parts = (if truthy_str course_link
                           then outline_parts @ [''**Course Link:** '' @ the course_link]
                           else outline_parts);
          instructor = cm_instructor course_meta;
          outline_parts = (if truthy_str instructor
                           then outline_parts @ [''**Instructor:** '' @ the instructor]
                           else outline_parts);
          lessons = (case cm_lessons course_meta of None \<Rightarrow> [] | Some ls \<Rightarrow> ls);
          outline_parts =
            (if lessons \<noteq> []
             then lesson_entries_loop lessons
                    (outline_parts @
                       [''\<newline>**Course Outline ('' @ nat_str (length lessons) @ '' lessons):**''])
             else outline_parts @ [''\<newline>**Course Outline:** No lessons available''])
      in py_join ''\<newline>'' outline_parts)"

text \<open>
  The search for the entry whose \<^verbatim>\<open>title\<close> equals the resolved title: the first one wins
  (\<^verbatim>\<open>break\<close>). An entry found has a title, so it is never the empty dictionary that
  \<^verbatim>\<open>if not matching_course\<close> would also reject.
\<close>

fun find_matching_course :: "course_meta list \<Rightarrow> string \<Rightarrow> course_meta option" where
  "find_matching_course [] resolved_course_title = None"
| "find_matching_course (course_meta # rest) resolved_course_title =
     (if cm_title course_meta = Some resolved_course_title then Some course_meta
      else find_matching_course rest resolved_course_title)"

text \<open>The tool holds the store and nothing else, so \<^verbatim>\<open>execute\<close> takes the store.\<close>

definition CourseOutlineTool_execute :: "vector_store \<Rightarrow> string \<Rightarrow> string" where
  "CourseOutlineTool_execute st course_name =
     (let resolved_course_title = resolve_course_name st course_name
      in if \<not> truthy_str resolved_course_title
         then ''No course found matching '' @ [apos] @ course_name @ [apos]
         else (let all_courses = get_all_courses_metadata st;
                   matching_course =
                     find_matching_course all_courses (the resolved_course_title)
               in case matching_course of
                    None \<Rightarrow> ''Course metadata not found for '' @ [apos]
                               @ the resolved_course_title @ [apos]
                  | Some course_meta \<Rightarrow> format_course_outline course_meta))"

section \<open>\<^verbatim>\<open>Tool\<close> and \<^verbatim>\<open>ToolManager\<close>\<close>

text \<open>
  A raised exception is a value: a method that may raise returns \<open>exn + 'a\<close> together with
  the state afterwards.
\<close>

datatype exn = ValueError string | TypeError

text \<open>
  The dictionary \<^verbatim>\<open>get_tool_definition\<close> returns. \<^verbatim>\<open>register_tool\<close> reads the key
  \<^verbatim>\<open>name\<close> with \<^verbatim>\<open>dict.get\<close>; the schema is kept as the declared parameters with their
  JSON types and the list of required ones.
\<close>

record tool_definition =
  td_name :: "string option"
  td_description :: "string option"
  td_properties :: "(string \<times> string) list"
  td_required :: "string list"

text \<open>
  The keyword arguments of a call \<^verbatim>\<open>execute(**kwargs)\<close>, over the parameters the tools
  declare; \<^term>\<open>None\<close> is a keyword that is not passed.
\<close>

record kwargs =
  kw_query :: "string option"
  kw_course_name :: "string option"
  kw_lesson_number :: "int option"

text \<open>
  The implementations of the abstract class \<^verbatim>\<open>Tool\<close>: the two of this module, and any
  other one, given by its definition, what its \<^verbatim>\<open>execute\<close> returns or raises, and its
  \<^verbatim>\<open>last_sources\<close> attribute if it has one.
\<close>

datatype tool =
    CourseSearch course_search_tool
  | CourseOutline vector_store
  | OtherTool tool_definition "kwargs \<Rightarrow> exn + string" "source list option"

fun get_tool_definition :: "tool \<Rightarrow> tool_definition" where
  "get_tool_definition (CourseSearch t) =
     \<lparr>td_name = Some ''search_course_content'',
      td_description =
        Some ''Search course materials with smart course name matching and lesson filtering'',
      td_properties =
        [(''query'', ''string''), (''course_name'', ''string''), (''lesson_number'', ''integer'')],
      td_required = [''query'']\<rparr>"
| "get_tool_definition (CourseOutline st) =
     \<lparr>td_name = Some ''get_course_outline'',
      td_description =
        Some (''Get the complete outline/structure of a course including course title, ''
              @ ''course link, and all lessons''),
      td_properties = [(''course_name'', ''string'')],
      td_required = [''course_name'']\<rparr>"
| "get_tool_definition (OtherTool d f s) = d"

text \<open>
  \<^verbatim>\<open>tool.execute(**kwargs)\<close>: Python binds the keywords to the parameters of the method
  and raises \<^verbatim>\<open>TypeError\<close> when a required one is missing or an undeclared one is passed.
\<close>

fun tool_execute :: "tool \<Rightarrow> kwargs \<Rightarrow> (exn + string) \<times> tool" where
  "tool_execute (CourseSearch t) kw =
     (case kw_query kw of
        None \<Rightarrow> (Inl TypeError, CourseSearch t)
      | Some query \<Rightarrow>
          (let out = CourseSearchTool_execute t query (kw_course_name kw) (kw_lesson_number kw)
           in (Inr (returned out), CourseSearch (tool_after out))))"
| "tool_execute (CourseOutline st) kw =
     (case kw_course_name kw of
        None \<Rightarrow> (Inl TypeError, CourseOutline st)
      | Some course_name \<Rightarrow>
          (if kw_query kw \<noteq> None \<or> kw_lesson_number kw \<noteq> None
           then (Inl TypeError, CourseOutline st)
           else (Inr (CourseOutlineTool_execute st course_name), CourseOutline st)))"
| "tool_execute (OtherTool d f s) kw = (f kw, OtherTool d f s)"

text \<open>\<^verbatim>\<open>tool.last_sources\<close> where \<^verbatim>\<open>hasattr(tool, 'last_sources')\<close>.\<close>

fun tool_last_sources :: "tool \<Rightarrow> source list option" where
  "tool_last_sources (CourseSearch t) = Some (last_sources t)"
| "tool_last_sources (CourseOutline st) = None"
| "tool_last_sources (OtherTool d f s) = s"

text \<open>\<^verbatim>\<open>if hasattr(tool, 'last_sources'): tool.last_sources = []\<close>\<close>

fun clear_last_sources :: "tool \<Rightarrow> tool" where
  "clear_last_sources (CourseSearch t) = CourseSearch (t\<lparr>last_sources := []\<rparr>)"
| "clear_last_sources (CourseOutline st) = CourseOutline st"
| "clear_last_sources (OtherTool d f s) =
     OtherTool d f (case s of None \<Rightarrow> None | Some old \<Rightarrow> Some [])"

text \<open>
  \<^verbatim>\<open>self.tools\<close> is a dictionary from names to tools. It is kept as the list of its items in
  insertion order, the order \<^verbatim>\<open>self.tools.values()\<close> iterates in: \<^const>\<open>map_of\<close> looks a
  name up, and \<^const>\<open>AList.update\<close> assigns as \<^verbatim>\<open>d[k] = v\<close> does, in place for a key
  that is there and at the end for a new one.
\<close>

record tool_manager =
  tools :: "(string \<times> tool) list"

definition register_tool :: "tool_manager \<Rightarrow> tool \<Rightarrow> (exn + unit) \<times> tool_manager" where
  "register_tool m t =
     (let tool_def = get_tool_definition t;
          tool_name = td_name tool_def
      in if \<not> truthy_str tool_name
         then (Inl (ValueError (''Tool must have a '' @ [apos] @ ''name'' @ [apos]
                                 @ '' in its definition'')), m)
         else (Inr (), m\<lparr>tools := AList.update (the tool_name) t (tools m)\<rparr>))"

definition get_tool_definitions :: "tool_manager \<Rightarrow> tool_definition list" where
  "get_tool_definitions m = map (\<lambda>item. get_tool_definition (snd item)) (tools m)"

text \<open>
  The tool found runs in place: the object in the dictionary is the one that changes, so
  its entry holds the tool afterwards.
\<close>

definition execute_tool ::
  "tool_manager \<Rightarrow> string \<Rightarrow> kwargs \<Rightarrow> (exn + string) \<times> tool_manager" where
  "execute_tool m tool_name kw =
     (case map_of (tools m) tool_name of
        None \<Rightarrow> (Inr (''Tool '' @ [apos] @ tool_name @ [apos] @ '' not found''), m)
      | Some t \<Rightarrow>
          (case tool_execute t kw of
             (result, t') \<Rightarrow> (result, m\<lparr>tools := AList.update tool_name t' (tools m)\<rparr>)))"

fun get_last_sources_loop :: "tool list \<Rightarrow> source list" where
  "get_last_sources_loop [] = []"
| "get_last_sources_loop (t # rest) =
     (case tool_last_sources t of
        None \<Rightarrow> get_last_sources_loop rest
      | Some srcs \<Rightarrow> (if srcs \<noteq> [] then srcs else get_last_sources_loop rest))"

definition get_last_sources :: "tool_manager \<Rightarrow> source list" where
  "get_last_sources m = get_last_sources_loop (map snd (tools m))"

fun reset_sources_loop :: "(string \<times> tool) list \<Rightarrow> (string \<times> tool) list" where
  "reset_sources_loop [] = []"
| "reset_sources_loop ((name, t) # rest) = (name, clear_last_sources t) # reset_sources_loop rest"

definition reset_sources :: "tool_manager \<Rightarrow> tool_manager" where
  "reset_sources m = m\<lparr>tools := reset_sources_loop (tools m)\<rparr>"

section \<open>The specification's wording of the formatting\<close>

text \<open>
  The header, the entry, the provenance record and the link look-up of one
  (document, metadata) pair, as the specification words them. Each is written from the
  metadata itself: the title is the \<^verbatim>\<open>course_title\<close> of the metadata (the word
  \<^verbatim>\<open>unknown\<close> when it has none), the lesson is its \<^verbatim>\<open>lesson_number\<close>.
\<close>

definition lesson_segment :: "chunk_meta \<Rightarrow> string" where
  "lesson_segment meta =
     (case meta_lesson_number meta of None \<Rightarrow> [] | Some n \<Rightarrow> '' - Lesson '' @ py_str_int n)"

definition spec_header :: "chunk_meta \<Rightarrow> string" where
  "spec_header meta =
     (case meta_course_title meta of
        None \<Rightarrow> ''[unknown'' @ lesson_segment meta @ '']''
      | Some title \<Rightarrow> ''['' @ title @ lesson_segment meta @ '']'')"

definition spec_entry :: "string \<times> chunk_meta \<Rightarrow> string" where
  "spec_entry p = spec_header (snd p) @ ''\<newline>'' @ fst p"

definition spec_source :: "vector_store \<Rightarrow> string \<times> chunk_meta \<Rightarrow> source" where
  "spec_source st p =
     (case (meta_course_title (snd p), meta_lesson_number (snd p)) of
        (None, None) \<Rightarrow> \<lparr>src_text = ''unknown'', src_url = None\<rparr>
      | (Some title, None) \<Rightarrow> \<lparr>src_text = title, src_url = None\<rparr>
      | (None, Some n) \<Rightarrow>
          \<lparr>src_text = ''unknown - Lesson '' @ py_str_int n,
           src_url = get_lesson_link st ''unknown'' n\<rparr>
      | (Some title, Some n) \<Rightarrow>
          \<lparr>src_text = title @ '' - Lesson '' @ py_str_int n,
           src_url = get_lesson_link st title n\<rparr>)"

definition spec_link_calls :: "string \<times> chunk_meta \<Rightarrow> (string \<times> int) list" where
  "spec_link_calls p =
     (case (meta_course_title (snd p), meta_lesson_number (snd p)) of
        (_, None) \<Rightarrow> []
      | (None, Some n) \<Rightarrow> [(''unknown'', n)]
      | (Some title, Some n) \<Rightarrow> [(title, n)])"

text \<open>
  The lines of an outline: the line of one lesson, a line that is there only for a value
  that is present and not empty, and the whole outline of the entry found under the title
  \<open>t\<close>.
\<close>

definition spec_lesson_line :: "lesson_meta \<Rightarrow> string" where
  "spec_lesson_line lesson =
     ''Lesson '' @ py_str_opt_int (lm_lesson_number lesson) @ '': ''
     @ (case lm_lesson_title lesson of None \<Rightarrow> ''Untitled Lesson'' | Some t \<Rightarrow> t)
     @ (case lm_lesson_link lesson of None \<Rightarrow> []
        | Some link \<Rightarrow> if link = [] then [] else '' - '' @ link)"

definition optional_line :: "string \<Rightarrow> string option \<Rightarrow> string list" where
  "optional_line label v =
     (case v of None \<Rightarrow> [] | Some x \<Rightarrow> if x = [] then [] else [label @ x])"

definition spec_outline_lines :: "string \<Rightarrow> course_meta \<Rightarrow> string list" where
  "spec_outline_lines t cm =
     [''**Course:** '' @ t]
     @ optional_line ''**Course Link:** '' (cm_course_link cm)
     @ optional_line ''**Instructor:** '' (cm_instructor cm)
     @ (case cm_lessons cm of
          None \<Rightarrow> [''\<newline>**Course Outline:** No lessons available'']
        | Some ls \<Rightarrow>
            if ls = [] then [''\<newline>**Course Outline:** No lessons available'']
            else (''\<newline>**Course Outline ('' @ nat_str (length ls) @ '' lessons):**'')
                 # map spec_lesson_line ls)"

section \<open>Example inputs\<close>

text \<open>
  Two courses, one of them with a lesson whose link is the empty string, and a store over
  them. Its search answers four queries: two hits (the second without a lesson number), a
  failure, a failure with an empty message, and no hit for anything else. Its resolver
  knows both courses, a title that has no metadata entry, and answers one name with the
  empty string.
\<close>

definition demo_hits :: search_results where
  "demo_hits =
     \<lparr>documents = [''alpha'', ''beta''],
      metadata = [\<lparr>meta_course_title = Some ''MCP'', meta_lesson_number = Some 1\<rparr>,
                  \<lparr>meta_course_title = Some ''MCP'', meta_lesson_number = None\<rparr>],
      error = None\<rparr>"

text \<open>
  Three hits with different titles: one with a lesson, one without, and one whose metadata
  has no title but a lesson.
\<close>

definition mixed_hits :: search_results where
  "mixed_hits =
     \<lparr>documents = [''alpha'', ''beta'', ''gamma''],
      metadata = [\<lparr>meta_course_title = Some ''MCP'', meta_lesson_number = Some 1\<rparr>,
                  \<lparr>meta_course_title = Some ''Chroma'', meta_lesson_number = None\<rparr>,
                  \<lparr>meta_course_title = None, meta_lesson_number = Some 12\<rparr>],
      error = None\<rparr>"

definition demo_course :: course_meta where
  "demo_course =
     \<lparr>cm_title = Some ''MCP: Build'',
      cm_course_link = Some ''https://example.com/mcp'',
      cm_instructor = None,
      cm_lessons = Some
        [\<lparr>lm_lesson_number = Some 0, lm_lesson_title = Some ''Introduction'',
          lm_lesson_link = Some ''https://example.com/mcp/0''\<rparr>,
         \<lparr>lm_lesson_number = Some 1, lm_lesson_title = Some ''Basics'',
          lm_lesson_link = None\<rparr>]\<rparr>"

definition blank_link_course :: course_meta where
  "blank_link_course =
     \<lparr>cm_title = Some ''Drafts'',
      cm_course_link = None,
      cm_instructor = Some ''Ada'',
      cm_lessons = Some
        [\<lparr>lm_lesson_number = Some 1, lm_lesson_title = Some ''Basics'',
          lm_lesson_link = Some []\<rparr>]\<rparr>"

definition demo_store :: vector_store where
  "demo_store =
     \<lparr>search = (\<lambda>query course_name lesson_number.
         if query = ''vectors'' then demo_hits
         else if query = ''mixed'' then mixed_hits
         else if query = ''boom''
         then \<lparr>documents = [], metadata = [], error = Some ''Search error: boom''\<rparr>
         else if query = ''blank'' then \<lparr>documents = [], metadata = [], error = Some []\<rparr>
         else \<lparr>documents = [], metadata = [], error = None\<rparr>),
      get_lesson_link = (\<lambda>course_title lesson_number.
         if course_title = ''MCP'' \<and> lesson_number = 1
         then Some ''https://example.com/lesson1''
         else if course_title = ''unknown'' \<and> lesson_number = 12
         then Some ''https://example.com/unknown12''
         else None),
      resolve_course_name = (\<lambda>course_name.
         if course_name = ''MCP'' then Some ''MCP: Build''
         else if course_name = ''draft'' then Some ''Drafts''
         else if course_name = ''ghost'' then Some ''Ghost Course''
         else if course_name = ''blank'' then Some []
         else None),
      get_all_courses_metadata = [blank_link_course, demo_course]\<rparr>"

definition demo_tool :: course_search_tool where
  "demo_tool =
     \<lparr>store = demo_store, last_sources = [\<lparr>src_text = ''old'', src_url = None\<rparr>]\<rparr>"

text \<open>
  Tools of other classes: one whose definition has no name, one whose name is the empty
  string, and one that takes the name of the outline tool and tracks provenance.
\<close>

definition plain_definition :: "string option \<Rightarrow> tool_definition" where
  "plain_definition n =
     \<lparr>td_name = n, td_description = Some ''test'', td_properties = [], td_required = []\<rparr>"

definition nameless_tool :: tool where
  "nameless_tool = OtherTool (plain_definition None) (\<lambda>kw. Inr ''done'') None"

definition blank_name_tool :: tool where
  "blank_name_tool = OtherTool (plain_definition (Some [])) (\<lambda>kw. Inr ''done'') None"

definition stand_in_tool :: tool where
  "stand_in_tool =
     OtherTool (plain_definition (Some ''get_course_outline'')) (\<lambda>kw. Inr ''done'')
       (Some [\<lparr>src_text = ''kept'', src_url = None\<rparr>])"

definition demo_manager :: tool_manager where
  "demo_manager =
     \<lparr>tools = [(''get_course_outline'', CourseOutline demo_store),
               (''search_course_content'', CourseSearch demo_tool)]\<rparr>"

definition demo_kwargs :: kwargs where
  "demo_kwargs =
     \<lparr>kw_query = Some ''vectors'', kw_course_name = None, kw_lesson_number = None\<rparr>"

text \<open>The facts that evaluate the examples and the Python built-ins on them.\<close>

lemmas demo_simps = demo_tool_def demo_store_def demo_hits_def mixed_hits_def demo_course_def
  blank_link_course_def py_str_opt_int_def py_str_int_def nat_str.simps digit_char_def apos_def

section \<open>The loops as maps\<close>

lemma format_results_loop_step:
  "format_results_loop st (p # ps) formatted sources calls =
     format_results_loop st ps (formatted @ [spec_entry p]) (sources @ [spec_source st p])
       (calls @ spec_link_calls p)"
proof -
  obtain doc meta where p: "p = (doc, meta)" by (cases p)
  show ?thesis
    unfolding p
    by (cases "meta_course_title meta"; cases "meta_lesson_number meta")
       (simp_all add: Let_def spec_entry_def spec_header_def spec_source_def
          spec_link_calls_def lesson_segment_def)
qed

lemma format_results_loop_eq:
  "format_results_loop st ps formatted sources calls =
     (formatted @ map spec_entry ps,
      sources @ map (spec_source st) ps,
      calls @ concat (map spec_link_calls ps))"
proof (induction ps arbitrary: formatted sources calls)
  case Nil
  show ?case by simp
next
  case (Cons p ps)
  show ?case
    by (simp only: format_results_loop_step Cons.IH) simp
qed

lemma format_results_eq:
  "format_results tool results =
     \<lparr>returned = py_join ''\<newline>\<newline>'' (map spec_entry (zip (documents results) (metadata results))),
      tool_after = tool\<lparr>last_sources :=
        map (spec_source (store tool)) (zip (documents results) (metadata results))\<rparr>,
      link_calls = concat (map spec_link_calls (zip (documents results) (metadata results)))\<rparr>"
  by (simp add: format_results_def format_results_loop_eq)

lemma execute_formats:
  assumes "\<not> truthy_str (error (search (store tool) q cn ln))"
    and "documents (search (store tool) q cn ln) \<noteq> []"
  shows "CourseSearchTool_execute tool q cn ln =
           format_results tool (search (store tool) q cn ln)"
  using assms by (simp add: CourseSearchTool_execute_def is_empty_def)

lemma lesson_entries_loop_eq:
  "lesson_entries_loop ls outline_parts = outline_parts @ map spec_lesson_line ls"
proof (induction ls arbitrary: outline_parts)
  case Nil
  show ?case by simp
next
  case (Cons l ls)
  show ?case
    by (cases "lm_lesson_link l")
       (simp_all add: Cons.IH Let_def spec_lesson_line_def truthy_str_def)
qed

lemma find_matching_course_title:
  "find_matching_course cs t = Some cm \<Longrightarrow> cm_title cm = Some t"
  by (induction cs) (auto split: if_splits)

lemma find_matching_course_None:
  "find_matching_course cs t = None \<longleftrightarrow> (\<forall>cm \<in> set cs. cm_title cm \<noteq> Some t)"
  by (induction cs) auto

lemma format_course_outline_eq:
  assumes "cm_title cm = Some t"
  shows "format_course_outline cm = py_join ''\<newline>'' (spec_outline_lines t cm)"
proof -
  have opt: "\<And>parts label v. (if truthy_str v then parts @ [label @ the v] else parts)
      = parts @ optional_line label v"
    by (simp add: truthy_str_def optional_line_def split: option.splits)
  show ?thesis
    using assms
    by (simp add: format_course_outline_def Let_def opt spec_outline_lines_def
        lesson_entries_loop_eq split: option.splits)
qed

lemma truthy_str_Some: "truthy_str (Some n) \<longleftrightarrow> n \<noteq> []"
  by (simp add: truthy_str_def)

lemma clear_last_sources_idem:
  "clear_last_sources (clear_last_sources t) = clear_last_sources t"
  by (cases t) (auto split: option.splits)

lemma tool_last_sources_clear:
  "tool_last_sources (clear_last_sources t) = map_option (\<lambda>old. []) (tool_last_sources t)"
  by (cases t) (auto split: option.splits)

lemma reset_sources_loop_idem:
  "reset_sources_loop (reset_sources_loop ts) = reset_sources_loop ts"
  by (induction ts rule: reset_sources_loop.induct) (simp_all add: clear_last_sources_idem)

lemma reset_sources_loop_names: "map fst (reset_sources_loop ts) = map fst ts"
  by (induction ts rule: reset_sources_loop.induct) simp_all

lemma reset_sources_loop_sources:
  "map (\<lambda>item. tool_last_sources (snd item)) (reset_sources_loop ts) =
     map (\<lambda>item. map_option (\<lambda>old. []) (tool_last_sources (snd item))) ts"
  by (induction ts rule: reset_sources_loop.induct) (simp_all add: tool_last_sources_clear)

lemma get_last_sources_loop_reset:
  "get_last_sources_loop (map snd (reset_sources_loop ts)) = []"
  by (induction ts rule: reset_sources_loop.induct)
     (simp_all add: tool_last_sources_clear split: option.splits)

text \<open>The example tool after the search with two hits.\<close>

lemma demo_after_hits:
  "tool_after (CourseSearchTool_execute demo_tool ''vectors'' None None) =
     \<lparr>store = demo_store,
      last_sources =
        [\<lparr>src_text = ''MCP - Lesson 1'', src_url = Some ''https://example.com/lesson1''\<rparr>,
         \<lparr>src_text = ''MCP'', src_url = None\<rparr>]\<rparr>"
  by (simp add: CourseSearchTool_execute_def format_results_eq is_empty_def truthy_str_def
      demo_simps spec_source_def lesson_segment_def)

lemma demo_manager_after_search:
  "snd (execute_tool demo_manager ''search_course_content'' demo_kwargs) =
     \<lparr>tools = [(''get_course_outline'', CourseOutline demo_store),
               (''search_course_content'', CourseSearch
                  \<lparr>store = demo_store,
                   last_sources =
                     [\<lparr>src_text = ''MCP - Lesson 1'',
                       src_url = Some ''https://example.com/lesson1''\<rparr>,
                      \<lparr>src_text = ''MCP'', src_url = None\<rparr>]\<rparr>)]\<rparr>"
  by (simp add: execute_tool_def demo_manager_def demo_kwargs_def demo_after_hits)

section \<open>Claims about \<^verbatim>\<open>CourseSearchTool\<close>\<close>

text \<open>
  C1. When the search result has no error and its document list is not empty,
  \<^verbatim>\<open>execute\<close> returns, for the (document, metadata) pairs in the order of the result, the
  header \<^verbatim>\<open>[{course_title} - Lesson {n}]\<close> (the lesson segment being there exactly when the
  metadata has a lesson number), a newline and the document, the entries joined by a
  blank line.
\<close>

theorem C1_search_output:
  assumes "error (search (store tool) query course_name lesson_number) = None"
    and "documents (search (store tool) query course_name lesson_number) \<noteq> []"
  shows "returned (CourseSearchTool_execute tool query course_name lesson_number) =
           py_join ''\<newline>\<newline>''
             (map spec_entry
                (zip (documents (search (store tool) query course_name lesson_number))
                     (metadata (search (store tool) query course_name lesson_number))))"
proof -
  from assms(1)
  have "\<not> truthy_str (error (search (store tool) query course_name lesson_number))"
    by (simp add: truthy_str_def)
  with assms(2) show ?thesis
    by (simp add: execute_formats format_results_eq)
qed

theorem C1_search_output_witness:
  "error (search (store demo_tool) ''mixed'' None None) = None \<and>
   documents (search (store demo_tool) ''mixed'' None None) \<noteq> [] \<and>
   returned (CourseSearchTool_execute demo_tool ''mixed'' None None) =
     ''[MCP - Lesson 1]\<newline>alpha\<newline>\<newline>[Chroma]\<newline>beta\<newline>\<newline>[unknown - Lesson 12]\<newline>gamma''"
  using C1_search_output [of demo_tool "''mixed''" None None]
  by (simp add: demo_simps spec_entry_def spec_header_def lesson_segment_def)

text \<open>
  C2. Under the same conditions one call of \<^verbatim>\<open>execute\<close> stores one provenance record for
  each (document, metadata) pair, in order, in place of the earlier \<^verbatim>\<open>last_sources\<close>: its
  text is the course title, with \<^verbatim>\<open> - Lesson {n}\<close> after it when the metadata has a lesson
  number, and its url is what \<^verbatim>\<open>get_lesson_link(course_title, lesson_number)\<close> returns when
  there is a lesson number and is unset otherwise. The look-ups made are exactly those of
  the entries with a lesson number: none is made for an entry without one.
\<close>

theorem C2_sources:
  assumes "error (search (store tool) query course_name lesson_number) = None"
    and "documents (search (store tool) query course_name lesson_number) \<noteq> []"
  shows "last_sources (tool_after (CourseSearchTool_execute tool query course_name lesson_number)) =
           map (spec_source (store tool))
             (zip (documents (search (store tool) query course_name lesson_number))
                  (metadata (search (store tool) query course_name lesson_number)))
       \<and> link_calls (CourseSearchTool_execute tool query course_name lesson_number) =
           concat (map spec_link_calls
             (zip (documents (search (store tool) query course_name lesson_number))
                  (metadata (search (store tool) query course_name lesson_number))))"
proof -
  from assms(1)
  have "\<not> truthy_str (error (search (store tool) query course_name lesson_number))"
    by (simp add: truthy_str_def)
  with assms(2) show ?thesis
    by (simp add: execute_formats format_results_eq)
qed

theorem C2_sources_witness:
  "error (search (store demo_tool) ''mixed'' None None) = None \<and>
   documents (search (store demo_tool) ''mixed'' None None) \<noteq> [] \<and>
   last_sources demo_tool = [\<lparr>src_text = ''old'', src_url = None\<rparr>] \<and>
   last_sources (tool_after (CourseSearchTool_execute demo_tool ''mixed'' None None)) =
     [\<lparr>src_text = ''MCP - Lesson 1'', src_url = Some ''https://example.com/lesson1''\<rparr>,
      \<lparr>src_text = ''Chroma'', src_url = None\<rparr>,
      \<lparr>src_text = ''unknown - Lesson 12'', src_url = Some ''https://example.com/unknown12''\<rparr>] \<and>
   link_calls (CourseSearchTool_execute demo_tool ''mixed'' None None) =
     [(''MCP'', 1), (''unknown'', 12)]"
  using C2_sources [of demo_tool "''mixed''" None None]
  by (simp add: demo_simps spec_source_def spec_link_calls_def)

text \<open>
  C3. For an empty result without error the message is \<^verbatim>\<open>No relevant content found\<close> with
  the course and the lesson that were supplied, lesson 0 included. The code tests
  \<^verbatim>\<open>if lesson_number:\<close>, which is false for 0: with \<^verbatim>\<open>lesson_number=0\<close> the message names no
  lesson, while with \<^verbatim>\<open>lesson_number=3\<close> it does.
\<close>

theorem C3_lesson_zero_omitted:
  "is_empty (search (store demo_tool) ''nothing'' None (Some 0)) \<and>
   error (search (store demo_tool) ''nothing'' None (Some 0)) = None \<and>
   returned (CourseSearchTool_execute demo_tool ''nothing'' None (Some 0)) =
     ''No relevant content found.'' \<and>
   returned (CourseSearchTool_execute demo_tool ''nothing'' None (Some 3)) =
     ''No relevant content found in lesson 3.''"
  by (simp add: CourseSearchTool_execute_def no_content_message_def is_empty_def
      truthy_str_def truthy_int_def demo_simps)

text \<open>
  C4, as amended. When the error of the search result is a non-empty string, \<^verbatim>\<open>execute\<close>
  returns exactly that string.
\<close>

theorem C4_error_verbatim:
  assumes "error (search (store tool) query course_name lesson_number) = Some e"
    and "e \<noteq> []"
  shows "returned (CourseSearchTool_execute tool query course_name lesson_number) = e"
  using assms by (simp add: CourseSearchTool_execute_def truthy_str_def)

theorem C4_error_verbatim_witness:
  "error (search (store demo_tool) ''boom'' None None) = Some ''Search error: boom'' \<and>
   ''Search error: boom'' \<noteq> [] \<and>
   returned (CourseSearchTool_execute demo_tool ''boom'' None None) = ''Search error: boom''"
  using C4_error_verbatim [of demo_tool "''boom''" None None "''Search error: boom''"]
  by (simp add: demo_simps)

text \<open>
  C4 as stated fails for an error that is set to the empty string: \<^verbatim>\<open>if results.error:\<close> is
  false for it, and the call goes on to the message of the empty result.
\<close>

theorem C4_empty_error_counterexample:
  "error (search (store demo_tool) ''blank'' None None) = Some [] \<and>
   returned (CourseSearchTool_execute demo_tool ''blank'' None None) =
     ''No relevant content found.''"
  by (simp add: CourseSearchTool_execute_def no_content_message_def is_empty_def
      truthy_str_def truthy_int_def demo_simps)

text \<open>
  C10. A call of \<^verbatim>\<open>execute\<close> that returns the error of the search or the message of the empty
  result leaves \<^verbatim>\<open>last_sources\<close> as it was, so the provenance of an earlier search with hits
  is still there after a later search that fails or finds nothing.
\<close>

theorem C10_sources_kept:
  assumes "truthy_str (error (search (store tool) query course_name lesson_number))
           \<or> is_empty (search (store tool) query course_name lesson_number)"
  shows "last_sources (tool_after (CourseSearchTool_execute tool query course_name lesson_number))
           = last_sources tool"
  using assms by (auto simp add: CourseSearchTool_execute_def Let_def)

theorem C10_sources_kept_witness:
  "truthy_str (error (search demo_store ''boom'' None None)) \<and>
   is_empty (search demo_store ''nothing'' (Some ''MCP'') None) \<and>
   last_sources (tool_after (CourseSearchTool_execute
       (tool_after (CourseSearchTool_execute demo_tool ''vectors'' None None))
       ''boom'' None None)) =
     [\<lparr>src_text = ''MCP - Lesson 1'', src_url = Some ''https://example.com/lesson1''\<rparr>,
      \<lparr>src_text = ''MCP'', src_url = None\<rparr>] \<and>
   last_sources (tool_after (CourseSearchTool_execute
       (tool_after (CourseSearchTool_execute demo_tool ''vectors'' None None))
       ''nothing'' (Some ''MCP'') None)) =
     [\<lparr>src_text = ''MCP - Lesson 1'', src_url = Some ''https://example.com/lesson1''\<rparr>,
      \<lparr>src_text = ''MCP'', src_url = None\<rparr>]"
  using C10_sources_kept [of "tool_after (CourseSearchTool_execute demo_tool ''vectors'' None None)"
      "''boom''" None None]
    C10_sources_kept [of "tool_after (CourseSearchTool_execute demo_tool ''vectors'' None None)"
      "''nothing''" "Some ''MCP''" None]
  by (simp add: demo_after_hits) (simp add: demo_store_def truthy_str_def is_empty_def)

section \<open>Claims about \<^verbatim>\<open>CourseOutlineTool\<close>\<close>

text \<open>
  C5, as amended. For the metadata entry found under the resolved title, \<^verbatim>\<open>execute\<close> renders
  the Course line with the title, a Course Link line and an Instructor line only for a
  value that is present (and not empty), then for a non-empty lesson list the header
  \<^verbatim>\<open>Course Outline (N lessons):\<close> with N the number of lessons and one line
  \<^verbatim>\<open>Lesson {number}: {title}\<close> for each lesson in order, with \<^verbatim>\<open> - {link}\<close> after it exactly
  when the lesson has a non-empty link; for an empty lesson list it renders
  \<^verbatim>\<open>**Course Outline:** No lessons available\<close> and no header with a count. The lines are
  joined by newlines.
\<close>

theorem C5_outline_rendering:
  assumes "resolve_course_name st course_name = Some t"
    and "t \<noteq> []"
    and "find_matching_course (get_all_courses_metadata st) t = Some cm"
  shows "CourseOutlineTool_execute st course_name =
           py_join ''\<newline>'' (spec_outline_lines t cm)"
  using assms
  by (simp add: CourseOutlineTool_execute_def truthy_str_def
      format_course_outline_eq [OF find_matching_course_title])

theorem C5_outline_rendering_witness:
  "resolve_course_name demo_store ''MCP'' = Some ''MCP: Build'' \<and>
   ''MCP: Build'' \<noteq> [] \<and>
   find_matching_course (get_all_courses_metadata demo_store) ''MCP: Build'' = Some demo_course \<and>
   CourseOutlineTool_execute demo_store ''MCP'' =
     ''**Course:** MCP: Build\<newline>**Course Link:** https://example.com/mcp\<newline>\<newline>**Course Outline (2 lessons):**\<newline>Lesson 0: Introduction - https://example.com/mcp/0\<newline>Lesson 1: Basics''"
  using C5_outline_rendering [of demo_store "''MCP''" "''MCP: Build''" demo_course]
  by (simp add: demo_simps spec_outline_lines_def optional_line_def spec_lesson_line_def)

text \<open>
  C5 as stated fails for a lesson whose link is the empty string: the lesson has the link
  entry, and \<^verbatim>\<open>if lesson_link:\<close> is false for it, so its line ends after the title.
\<close>

theorem C5_blank_link_counterexample:
  "map lm_lesson_link (the (cm_lessons blank_link_course)) = [Some []] \<and>
   CourseOutlineTool_execute demo_store ''draft'' =
     ''**Course:** Drafts\<newline>**Instructor:** Ada\<newline>\<newline>**Course Outline (1 lessons):**\<newline>Lesson 1: Basics''"
  by (simp add: CourseOutlineTool_execute_def truthy_str_def format_course_outline_def Let_def
      demo_simps)

text \<open>
  C6, as amended. \<^verbatim>\<open>execute\<close> returns \<^verbatim>\<open>No course found matching '{course_name}'\<close> when the
  resolver returns no title or the empty string, and
  \<^verbatim>\<open>Course metadata not found for '{title}'\<close> when it returns a non-empty title that no entry
  of the metadata list has. It returns a string in every case: nothing is raised, and in
  these two cases the string is the message alone.
\<close>

theorem C6_outline_failures:
  "(\<not> truthy_str (resolve_course_name st course_name) \<longrightarrow>
      CourseOutlineTool_execute st course_name =
        ''No course found matching '' @ [apos] @ course_name @ [apos])
   \<and> (\<forall>t. resolve_course_name st course_name = Some t \<and> t \<noteq> [] \<and>
          (\<forall>cm \<in> set (get_all_courses_metadata st). cm_title cm \<noteq> Some t) \<longrightarrow>
      CourseOutlineTool_execute st course_name =
        ''Course metadata not found for '' @ [apos] @ t @ [apos])"
  by (auto simp add: CourseOutlineTool_execute_def Let_def truthy_str_def
      find_matching_course_None [symmetric])

theorem C6_outline_failures_witness:
  "\<not> truthy_str (resolve_course_name demo_store ''zzz'') \<and>
   CourseOutlineTool_execute demo_store ''zzz'' = ''No course found matching 'zzz'' @ [apos] \<and>
   resolve_course_name demo_store ''ghost'' = Some ''Ghost Course'' \<and>
   find_matching_course (get_all_courses_metadata demo_store) ''Ghost Course'' = None \<and>
   CourseOutlineTool_execute demo_store ''ghost'' =
     ''Course metadata not found for 'Ghost Course'' @ [apos]"
  using C6_outline_failures [of demo_store "''zzz''"]
    C6_outline_failures [of demo_store "''ghost''"]
  by (simp add: demo_simps truthy_str_def)

text \<open>
  C6 as stated fails when the resolver returns the empty string as the title and no entry
  has it: \<^verbatim>\<open>if not resolved_course_title:\<close> holds, and the message is the one for no course.
\<close>

theorem C6_blank_title_counterexample:
  "resolve_course_name demo_store ''blank'' = Some [] \<and>
   find_matching_course (get_all_courses_metadata demo_store) [] = None \<and>
   CourseOutlineTool_execute demo_store ''blank'' =
     ''No course found matching 'blank'' @ [apos]"
  by (simp add: CourseOutlineTool_execute_def truthy_str_def demo_simps)

section \<open>Claims about \<^verbatim>\<open>ToolManager\<close>\<close>

text \<open>
  C7, as amended. \<^verbatim>\<open>register_tool\<close> raises \<^verbatim>\<open>ValueError\<close> for a tool whose definition has no
  name or the empty string as its name, and the manager is then as before; for a tool whose
  definition has a non-empty name it stores the tool under that name, whatever was
  registered under it, and every other name keeps its tool.
\<close>

theorem C7_register_tool:
  "(\<not> truthy_str (td_name (get_tool_definition t)) \<longrightarrow>
      register_tool m t =
        (Inl (ValueError
           (''Tool must have a '' @ [apos] @ ''name'' @ [apos] @ '' in its definition'')), m))
   \<and> (\<forall>n. td_name (get_tool_definition t) = Some n \<and> n \<noteq> [] \<longrightarrow>
          fst (register_tool m t) = Inr ()
        \<and> map_of (tools (snd (register_tool m t))) n = Some t
        \<and> (\<forall>k. k \<noteq> n \<longrightarrow>
              map_of (tools (snd (register_tool m t))) k = map_of (tools m) k))"
  by (simp add: register_tool_def Let_def truthy_str_Some update_conv')

theorem C7_register_tool_witness:
  "\<not> truthy_str (td_name (get_tool_definition nameless_tool)) \<and>
   register_tool demo_manager nameless_tool =
     (Inl (ValueError ''Tool must have a 'name' in its definition''), demo_manager) \<and>
   td_name (get_tool_definition stand_in_tool) = Some ''get_course_outline'' \<and>
   fst (register_tool demo_manager stand_in_tool) = Inr () \<and>
   map_of (tools demo_manager) ''get_course_outline'' = Some (CourseOutline demo_store) \<and>
   map_of (tools (snd (register_tool demo_manager stand_in_tool))) ''get_course_outline''
     = Some stand_in_tool \<and>
   map_of (tools (snd (register_tool demo_manager stand_in_tool))) ''search_course_content''
     = Some (CourseSearch demo_tool)"
  using C7_register_tool [of nameless_tool demo_manager]
    C7_register_tool [of stand_in_tool demo_manager]
  by (simp add: nameless_tool_def stand_in_tool_def plain_definition_def truthy_str_def
      demo_manager_def apos_def)

text \<open>
  C7 as stated fails for a definition whose name is the empty string: it contains a name,
  and \<^verbatim>\<open>if not tool_name:\<close> raises for it.
\<close>

theorem C7_blank_name_counterexample:
  "td_name (get_tool_definition blank_name_tool) = Some [] \<and>
   register_tool demo_manager blank_name_tool =
     (Inl (ValueError ''Tool must have a 'name' in its definition''), demo_manager)"
  by (simp add: register_tool_def blank_name_tool_def plain_definition_def truthy_str_def
      apos_def)

text \<open>
  C8. For a name that is not registered \<^verbatim>\<open>execute_tool\<close> returns the string
  \<^verbatim>\<open>Tool '{name}' not found\<close>, raises nothing and changes nothing. For a registered name
  its outcome is the outcome of that tool's \<^verbatim>\<open>execute\<close> on the same arguments, unchanged;
  the tool afterwards stays under its name and every other name keeps its tool.
\<close>

theorem C8_execute_tool:
  "(map_of (tools m) tool_name = None \<longrightarrow>
      execute_tool m tool_name kw =
        (Inr (''Tool '' @ [apos] @ tool_name @ [apos] @ '' not found''), m))
   \<and> (\<forall>t. map_of (tools m) tool_name = Some t \<longrightarrow>
          fst (execute_tool m tool_name kw) = fst (tool_execute t kw)
        \<and> map_of (tools (snd (execute_tool m tool_name kw))) tool_name
            = Some (snd (tool_execute t kw))
        \<and> (\<forall>k. k \<noteq> tool_name \<longrightarrow>
              map_of (tools (snd (execute_tool m tool_name kw))) k = map_of (tools m) k))"
  by (simp add: execute_tool_def update_conv' split: prod.splits)

theorem C8_execute_tool_witness:
  "map_of (tools demo_manager) ''nonexistent_tool'' = None \<and>
   execute_tool demo_manager ''nonexistent_tool'' demo_kwargs =
     (Inr ''Tool 'nonexistent_tool' not found'', demo_manager) \<and>
   map_of (tools demo_manager) ''search_course_content'' = Some (CourseSearch demo_tool) \<and>
   fst (execute_tool demo_manager ''search_course_content'' demo_kwargs) =
     Inr ''[MCP - Lesson 1]\<newline>alpha\<newline>\<newline>[MCP]\<newline>beta''"
  using C8_execute_tool [of demo_manager "''nonexistent_tool''" demo_kwargs]
    C8_execute_tool [of demo_manager "''search_course_content''" demo_kwargs]
  by (simp add: demo_manager_def demo_kwargs_def CourseSearchTool_execute_def
      format_results_eq is_empty_def truthy_str_def demo_simps spec_entry_def spec_header_def
      lesson_segment_def)

text \<open>
  C9. \<^verbatim>\<open>reset_sources\<close> is idempotent; after it \<^verbatim>\<open>get_last_sources\<close> returns the empty list;
  it keeps the registered names in their order, and every registered tool that has a
  \<^verbatim>\<open>last_sources\<close> attribute has the empty list there afterwards, while a tool without the
  attribute still has none.
\<close>

theorem C9_reset_sources:
  "reset_sources (reset_sources m) = reset_sources m
   \<and> get_last_sources (reset_sources m) = []
   \<and> map fst (tools (reset_sources m)) = map fst (tools m)
   \<and> map (\<lambda>item. tool_last_sources (snd item)) (tools (reset_sources m)) =
       map (\<lambda>item. map_option (\<lambda>old. []) (tool_last_sources (snd item))) (tools m)"
  by (simp add: reset_sources_def get_last_sources_def reset_sources_loop_idem
      reset_sources_loop_names reset_sources_loop_sources get_last_sources_loop_reset)

theorem C9_reset_sources_witness:
  "get_last_sources (snd (execute_tool demo_manager ''search_course_content'' demo_kwargs)) =
     [\<lparr>src_text = ''MCP - Lesson 1'', src_url = Some ''https://example.com/lesson1''\<rparr>,
      \<lparr>src_text = ''MCP'', src_url = None\<rparr>] \<and>
   get_last_sources
     (reset_sources (snd (execute_tool demo_manager ''search_course_content'' demo_kwargs))) = []"
  using C9_reset_sources
    [of "snd (execute_tool demo_manager ''search_course_content'' demo_kwargs)"]
  by (simp add: demo_manager_after_search get_last_sources_def)

end
